theory Spec2Isabelle
  imports Main "HOL-Library.Sublist"
begin

section \<open>Python values handled by the application\<close>

text \<open>
  The application is duck typed: an attribute of a recognised field may hold nothing, a
  text, a date, a datetime or an address object, and the code tells them apart at run
  time (truthiness tests, \<open>isinstance\<close>, attribute access, \<open>+\<close>). The values are
  therefore one datatype, and every operation that Python may refuse returns an error
  value instead.
\<close>

datatype date = Date (year: nat) (month: nat) (day: nat)

datatype datetime =
  DateTime (date_part: date) (hour: nat) (minute: nat) (second: nat) (microsecond: nat)

datatype pyval =
    PNone
  | PStr string
  | PFloat0 \<comment> \<open>the float \<open>0.0\<close>, the only number the program writes\<close>
  | PDate date
  | PDateTime datetime
  | PAddress pyval \<comment> \<open>an address object, given by its \<open>postal_code\<close> attribute\<close>

datatype py_error = AttributeError | TypeError

text \<open>Truth value testing: \<open>None\<close>, the empty text and \<open>0.0\<close> are false.\<close>

fun truthy :: "pyval \<Rightarrow> bool" where
  "truthy PNone = False"
| "truthy (PStr s) = (s \<noteq> [])"
| "truthy PFloat0 = False"
| "truthy (PDate d) = True"
| "truthy (PDateTime dt) = True"
| "truthy (PAddress pc) = True"

text \<open>\<open>a + b\<close>: concatenation of two texts; no other pair of truthy values supports it.\<close>

fun py_add :: "pyval \<Rightarrow> pyval \<Rightarrow> py_error + pyval" where
  "py_add (PStr a) (PStr b) = Inr (PStr (a @ b))"
| "py_add PFloat0 PFloat0 = Inr PFloat0"
| "py_add a b = Inl TypeError"

text \<open>\<open>v.postal_code\<close>: only an address object has the attribute.\<close>

fun get_postal_code :: "pyval \<Rightarrow> py_error + pyval" where
  "get_postal_code (PAddress pc) = Inr pc"
| "get_postal_code v = Inl AttributeError"

section \<open>The document-analysis result\<close>

record document_field =
  content :: pyval
  value_string :: pyval
  value_country_region :: pyval
  value_address :: pyval

text \<open>
  \<open>doc.fields\<close> is a dictionary from field names to fields; \<open>fields.get(k)\<close> is the
  lookup \<open>fields k\<close>. A field object that is present is truthy. An absent or empty
  \<open>result.documents\<close> is the empty list. \<open>result.content\<close> is the recognised text of
  the whole document; nothing inspects it.
\<close>

record analyzed_document =
  doc_fields :: "string \<rightharpoonup> document_field"

record analyze_result =
  result_content :: string
  documents :: "analyzed_document list"

record parsed_data =
  merchant_name :: pyval
  estimated_amount :: pyval
  zip_code :: pyval
  check_in :: pyval
  check_out :: pyval
  logding_location :: pyval
  receipt_file_content :: string

section \<open>\<open>to_date\<close>\<close>

text \<open>
  \<open>to_date\<close> is parameterised by \<open>fromiso\<close>, which stands for the library expression
  \<open>datetime.fromisoformat(str(field_value))\<close>: \<open>fromiso v = None\<close> when that expression
  raises. The bare \<open>except\<close> turns every exception of the \<open>try\<close> block into the
  return of the raw value.
\<close>

definition to_date :: "(pyval \<Rightarrow> datetime option) \<Rightarrow> pyval \<Rightarrow> pyval" where
  "to_date fromiso field_value =
     (if \<not> truthy field_value then PNone
      else case field_value of
          PDateTime dt \<Rightarrow> PDate (date_part dt)
        | PDate d \<Rightarrow> PDate d
        | _ \<Rightarrow> (case fromiso field_value of
                   Some dt \<Rightarrow> PDate (date_part dt)
                 | None \<Rightarrow> field_value))"

section \<open>\<open>parse_receipt\<close>, from the analysis result on\<close>

text \<open>
  The model starts where the analysis service has answered (\<open>result = poller.result()\<close>)
  and follows the function block by block; each block takes \<open>parsed_data\<close> and returns
  it updated, or the exception it raises.
\<close>

definition default_parsed_data :: parsed_data where
  "default_parsed_data =
     \<lparr>merchant_name = PStr [], estimated_amount = PFloat0, zip_code = PStr [],
      check_in = PNone, check_out = PNone, logding_location = PStr [],
      receipt_file_content = []\<rparr>"

definition set_merchant_name :: "document_field option \<Rightarrow> parsed_data \<Rightarrow> parsed_data" where
  "set_merchant_name merchant_field pd =
     (case merchant_field of
        None \<Rightarrow> pd
      | Some f \<Rightarrow> if truthy (value_string f) then pd\<lparr>merchant_name := value_string f\<rparr> else pd)"

definition set_estimated_amount :: "document_field option \<Rightarrow> parsed_data \<Rightarrow> parsed_data" where
  "set_estimated_amount total_field pd =
     (case total_field of
        None \<Rightarrow> pd
      | Some f \<Rightarrow> if truthy (content f) then pd\<lparr>estimated_amount := content f\<rparr> else pd)"

definition set_lodging_location ::
  "document_field option \<Rightarrow> parsed_data \<Rightarrow> py_error + parsed_data" where
  "set_lodging_location country_region pd =
     (case country_region of
        None \<Rightarrow> Inr pd
      | Some f \<Rightarrow>
          if truthy (value_country_region f) \<or> truthy (value_address f) then
            if truthy (value_country_region f) \<and> truthy (value_address f) then
              (case py_add (value_country_region f) (value_address f) of
                 Inl e \<Rightarrow> Inl e
               | Inr v \<Rightarrow> Inr (pd\<lparr>logding_location := v\<rparr>))
            else if truthy (value_country_region f) then
              Inr (pd\<lparr>logding_location := value_country_region f\<rparr>)
            else if truthy (value_address f) then
              Inr (pd\<lparr>logding_location := value_address f\<rparr>)
            else Inr pd
          else Inr pd)"

definition set_zip_code :: "document_field option \<Rightarrow> parsed_data \<Rightarrow> py_error + parsed_data" where
  "set_zip_code address_field pd =
     (case address_field of
        None \<Rightarrow> Inr pd
      | Some f \<Rightarrow>
          (case get_postal_code (value_address f) of
             Inl e \<Rightarrow> Inl e
           | Inr pc \<Rightarrow> if truthy pc then Inr (pd\<lparr>zip_code := pc\<rparr>) else Inr pd))"

definition field_date :: "(pyval \<Rightarrow> datetime option) \<Rightarrow> document_field option \<Rightarrow> pyval" where
  "field_date fromiso field =
     (case field of None \<Rightarrow> PNone | Some f \<Rightarrow> to_date fromiso (content f))"

definition set_dates ::
  "(pyval \<Rightarrow> datetime option) \<Rightarrow> document_field option \<Rightarrow> document_field option \<Rightarrow>
   document_field option \<Rightarrow> parsed_data \<Rightarrow> parsed_data" where
  "set_dates fromiso arrival_field departure_field transaction_field pd =
     (let arrival_date = field_date fromiso arrival_field;
          departure_date = field_date fromiso departure_field;
          transaction_date = field_date fromiso transaction_field
      in if truthy arrival_date \<and> truthy departure_date then
           pd\<lparr>check_in := arrival_date, check_out := departure_date\<rparr>
         else if truthy transaction_date then
           pd\<lparr>check_in := transaction_date, check_out := transaction_date\<rparr>
         else pd)"

definition parse_receipt ::
  "(pyval \<Rightarrow> datetime option) \<Rightarrow> analyze_result \<Rightarrow> py_error + parsed_data" where
  "parse_receipt fromiso result =
     (let pd = default_parsed_data\<lparr>receipt_file_content := result_content result\<rparr>
      in case documents result of
           [] \<Rightarrow> Inr pd
         | doc # _ \<Rightarrow>
             (let fields = doc_fields doc;
                  pd = set_merchant_name (fields ''MerchantName'') pd;
                  pd = set_estimated_amount (fields ''Total'') pd
              in case set_lodging_location (fields ''CountryRegion'') pd of
                   Inl e \<Rightarrow> Inl e
                 | Inr pd \<Rightarrow>
                     (case set_zip_code (fields ''MerchantAddress'') pd of
                        Inl e \<Rightarrow> Inl e
                      | Inr pd \<Rightarrow>
                          Inr (set_dates fromiso (fields ''ArrivalDate'') (fields ''DepartureDate'')
                                 (fields ''TransactionDate'') pd))))"

section \<open>A calendar-date instance of the ISO-8601 parser\<close>

text \<open>
  The theorems below hold for every behaviour of \<open>datetime.fromisoformat\<close>. The worked
  examples need one: this instance reads the calendar form \<open>YYYY-MM-DD\<close>, which every
  version of the library accepts, at midnight, and rejects any other text. A date or a
  datetime prints in ISO format and parses back; \<open>None\<close>, \<open>0.0\<close> and an object
  do not print as dates.
\<close>

definition digit_val :: "char \<Rightarrow> nat option" where
  "digit_val c =
     (if c \<in> set ''0123456789'' then Some ((of_char c :: nat) - 48) else None)"

fun number_val :: "string \<Rightarrow> nat \<Rightarrow> nat option" where
  "number_val [] n = Some n"
| "number_val (c # cs) n =
     (case digit_val c of None \<Rightarrow> None | Some d \<Rightarrow> number_val cs (10 * n + d))"

definition is_leap :: "nat \<Rightarrow> bool" where
  "is_leap y = (y mod 4 = 0 \<and> (y mod 100 \<noteq> 0 \<or> y mod 400 = 0))"

definition days_in_month :: "nat \<Rightarrow> nat \<Rightarrow> nat" where
  "days_in_month y m =
     (if m = 2 then (if is_leap y then 29 else 28)
      else if m \<in> {4, 6, 9, 11} then 30 else 31)"

definition fromisoformat_date :: "string \<Rightarrow> datetime option" where
  "fromisoformat_date s =
     (if length s = 10 \<and> s ! 4 = CHR ''-'' \<and> s ! 7 = CHR ''-'' then
        (case (number_val (take 4 s) 0, number_val (take 2 (drop 5 s)) 0,
               number_val (drop 8 s) 0) of
           (Some y, Some m, Some d) \<Rightarrow>
             if 1 \<le> y \<and> 1 \<le> m \<and> m \<le> 12 \<and> 1 \<le> d \<and> d \<le> days_in_month y m
             then Some (DateTime (Date y m d) 0 0 0 0) else None
         | _ \<Rightarrow> None)
      else None)"

fun fromiso_calendar :: "pyval \<Rightarrow> datetime option" where
  "fromiso_calendar (PStr s) = fromisoformat_date s"
| "fromiso_calendar (PDate d) = Some (DateTime d 0 0 0 0)"
| "fromiso_calendar (PDateTime dt) = Some dt"
| "fromiso_calendar v = None"

section \<open>The policy document reader\<close>

text \<open>
  What the PDF library does is the input: \<open>fitz.open\<close> raises an exception (given by
  its message \<open>str(e)\<close>, \<open>Inl\<close>) or returns the pages, and \<open>get_text\<close> of each page
  raises or returns its text. \<open>isspace\<close> is \<open>str.isspace\<close> on one character.
\<close>

type_synonym pdf_read = "string + (string + string) list"

fun read_pages :: "(string + string) list \<Rightarrow> string \<Rightarrow> string + string" where
  "read_pages [] text = Inr text"
| "read_pages (page # pages) text =
     (case page of
        Inl e \<Rightarrow> Inl e
      | Inr t \<Rightarrow> read_pages pages (text @ t @ [CHR 0x0A]))"

definition strip :: "(char \<Rightarrow> bool) \<Rightarrow> string \<Rightarrow> string" where
  "strip isspace s = rev (dropWhile isspace (rev (dropWhile isspace s)))"

definition extract_text_from_pdf :: "(char \<Rightarrow> bool) \<Rightarrow> pdf_read \<Rightarrow> string" where
  "extract_text_from_pdf isspace pdf =
     (case pdf of
        Inl e \<Rightarrow> ''Error: '' @ e
      | Inr doc \<Rightarrow>
          (case read_pages doc [] of
             Inl e \<Rightarrow> ''Error: '' @ e
           | Inr text \<Rightarrow> strip isspace text))"

definition ascii_isspace :: "char \<Rightarrow> bool" where
  "ascii_isspace c =
     ((of_char c :: nat) \<in> {0x09, 0x0A, 0x0B, 0x0C, 0x0D, 0x1C, 0x1D, 0x1E, 0x1F, 0x20})"

section \<open>Session state: the draft and the line items\<close>

text \<open>
  A line item is a dictionary, kept as the list of its entries in insertion order.
  The draft is a dictionary with ten fixed keys. The form widgets return texts.
\<close>

type_synonym line_item = "(string \<times> string) list"

record draft =
  draft_expense_name :: pyval
  draft_expense_type :: pyval
  draft_cost_center :: pyval
  draft_merchant_name :: pyval
  draft_lodging_location :: pyval
  draft_check_in :: pyval
  draft_check_out :: pyval
  draft_zip_code :: pyval
  draft_estimated_amount :: pyval
  draft_receipt_file :: string

record session_state =
  line_items :: "line_item list"
  draft_fields :: draft

record form_values =
  form_expense_name :: string
  form_expense_type :: string
  form_cost_center :: string
  form_merchant_name :: string
  form_lodging_location :: string
  form_check_in :: string
  form_check_out :: string
  form_zip_code :: string
  form_estimated_amount :: string

definition empty_draft :: "date \<Rightarrow> draft" where
  "empty_draft today =
     \<lparr>draft_expense_name = PStr [], draft_expense_type = PStr ''Hotel/Lodging'',
      draft_cost_center = PStr [], draft_merchant_name = PStr [],
      draft_lodging_location = PStr [], draft_check_in = PDate today,
      draft_check_out = PDate today, draft_zip_code = PStr [],
      draft_estimated_amount = PFloat0, draft_receipt_file = []\<rparr>"

text \<open>Lines 158 to 173: a session with no state yet gets an empty store and draft.\<close>

definition init_session :: "date \<Rightarrow> session_state option \<Rightarrow> session_state" where
  "init_session today st =
     (case st of
        None \<Rightarrow> \<lparr>line_items = [], draft_fields = empty_draft today\<rparr>
      | Some s \<Rightarrow> s)"

text \<open>\<open>d.pop(k, None)\<close> on a copy, and the comprehension that skips a key.\<close>

definition dict_pop :: "string \<Rightarrow> line_item \<Rightarrow> line_item" where
  "dict_pop k d = filter (\<lambda>(k', v). k' \<noteq> k) d"

definition display_item :: "line_item \<Rightarrow> line_item" where
  "display_item item = dict_pop ''receipt_file'' item"

definition current_line_items :: "line_item list \<Rightarrow> (nat \<times> line_item) list" where
  "current_line_items items =
     map (\<lambda>(idx, item). (idx + 1, display_item item)) (enumerate 0 items)"

definition filtered_line_items :: "line_item list \<Rightarrow> line_item list" where
  "filtered_line_items items =
     map (\<lambda>item. filter (\<lambda>(k, v). k \<noteq> ''receipt_file'') item) items"

text \<open>The draft updates after a receipt has been parsed (lines 228 to 237).\<close>

definition populate :: "parsed_data \<Rightarrow> draft \<Rightarrow> draft" where
  "populate parsed_result d =
     (let d = d\<lparr>draft_merchant_name := merchant_name parsed_result\<rparr>;
          d = d\<lparr>draft_estimated_amount := estimated_amount parsed_result\<rparr>;
          d = d\<lparr>draft_zip_code := zip_code parsed_result\<rparr>;
          d = d\<lparr>draft_lodging_location := logding_location parsed_result\<rparr>;
          d = (if truthy (check_in parsed_result)
               then d\<lparr>draft_check_in := check_in parsed_result\<rparr> else d);
          d = (if truthy (check_out parsed_result)
               then d\<lparr>draft_check_out := check_out parsed_result\<rparr> else d)
      in d\<lparr>draft_receipt_file := receipt_file_content parsed_result\<rparr>)"

text \<open>\<open>str(x)\<close> of a text is the text.\<close>

definition str_of_text :: "string \<Rightarrow> string" where
  "str_of_text s = s"

definition new_item :: "form_values \<Rightarrow> draft \<Rightarrow> line_item" where
  "new_item fv d =
     [(''expense_name'', form_expense_name fv),
      (''expense_type'', form_expense_type fv),
      (''cost_center'', form_cost_center fv),
      (''merchant_name'', form_merchant_name fv),
      (''lodging_location'', form_lodging_location fv),
      (''check_in'', str_of_text (form_check_in fv)),
      (''check_out'', str_of_text (form_check_out fv)),
      (''zip_code'', form_zip_code fv),
      (''estimated_amount'', form_estimated_amount fv),
      (''receipt_file'', draft_receipt_file d)]"

text \<open>"Add This Line Item" (lines 243 to 270).\<close>

definition add_line_item :: "date \<Rightarrow> form_values \<Rightarrow> session_state \<Rightarrow> session_state" where
  "add_line_item today fv s =
     (let s = s\<lparr>line_items := line_items s @ [new_item fv (draft_fields s)]\<rparr>
      in s\<lparr>draft_fields := empty_draft today\<rparr>)"

section \<open>The compliance request\<close>

text \<open>
  \<open>str(line_items)\<close> prints a list of dictionaries of texts; \<open>repr_str\<close> is
  \<open>repr\<close> of one text (its quoting and escaping are the library's).
\<close>

fun join :: "string \<Rightarrow> string list \<Rightarrow> string" where
  "join sep [] = []"
| "join sep [x] = x"
| "join sep (x # y # ys) = x @ sep @ join sep (y # ys)"

definition repr_entry :: "(string \<Rightarrow> string) \<Rightarrow> string \<times> string \<Rightarrow> string" where
  "repr_entry repr_str e = repr_str (fst e) @ '': '' @ repr_str (snd e)"

definition repr_dict :: "(string \<Rightarrow> string) \<Rightarrow> line_item \<Rightarrow> string" where
  "repr_dict repr_str d = ''{'' @ join '', '' (map (repr_entry repr_str) d) @ ''}''"

definition str_of_items :: "(string \<Rightarrow> string) \<Rightarrow> line_item list \<Rightarrow> string" where
  "str_of_items repr_str items = ''['' @ join '', '' (map (repr_dict repr_str) items) @ '']''"

record chat_message =
  role :: string
  message_content :: string

definition compliance_messages ::
  "(string \<Rightarrow> string) \<Rightarrow> string \<Rightarrow> line_item list \<Rightarrow> chat_message list" where
  "compliance_messages repr_str pdf_text items =
     [\<lparr>role = ''system'',
       message_content =
         ''Given to you is the travel manual or all the policies related to submitting expense: ''
         @ pdf_text\<rparr>,
      \<lparr>role = ''system'',
       message_content =
         ''You need to act as Policy violation checker, we will provide you with the line items of the expense, based on that you need to check and get back to with possible policy violations''\<rparr>,
      \<lparr>role = ''system'',
       message_content =
         ''Along with policy violation you should get back to user with suggestions. Here are the line items: ''
         @ str_of_items repr_str items\<rparr>,
      \<lparr>role = ''system'',
       message_content =
         ''Always respond back in json format with keys line_item_no, policy_violations (value should be None if no policy violation is there), suggestion (if any policy violations are there)''\<rparr>]"

text \<open>
  "Submit Expense Report" (lines 273 to 293), up to the call of the review service: what
  is shown, and the request that is sent. The session state is passed through.
\<close>

record submission =
  final_json :: "line_item list"
  request :: "chat_message list"

definition submit_report ::
  "(string \<Rightarrow> string) \<Rightarrow> (char \<Rightarrow> bool) \<Rightarrow> pdf_read \<Rightarrow> session_state \<Rightarrow>
   session_state \<times> submission" where
  "submit_report repr_str isspace pdf s =
     (let filtered = filtered_line_items (line_items s);
          pdf_text = extract_text_from_pdf isspace pdf
      in (s, \<lparr>final_json = filtered,
               request = compliance_messages repr_str pdf_text (line_items s)\<rparr>))"

section \<open>One run of the script\<close>

text \<open>
  Every interaction runs \<open>main\<close> once, from the top, on the session state. A run has at
  most one pressed button; "Parse Receipt" without an uploaded file does nothing and is
  a run with no event. After a parsed receipt the script is run again
  (\<open>st.rerun()\<close>), with no button pressed. A run returns the session state it leaves,
  the line items it displayed, and what the pressed button produced.
\<close>

datatype event =
    NoEvent
  | ParseReceipt analyze_result
  | AddLineItem form_values
  | SubmitReport pdf_read

datatype outcome = Nothing | Raised py_error | Submitted submission

definition main ::
  "(pyval \<Rightarrow> datetime option) \<Rightarrow> (string \<Rightarrow> string) \<Rightarrow> (char \<Rightarrow> bool) \<Rightarrow> date \<Rightarrow>
   event \<Rightarrow> session_state option \<Rightarrow> session_state \<times> (nat \<times> line_item) list \<times> outcome" where
  "main fromiso repr_str isspace today ev st =
     (let s = init_session today st;
          shown = current_line_items (line_items s)
      in case ev of
           NoEvent \<Rightarrow> (s, shown, Nothing)
         | ParseReceipt result \<Rightarrow>
             (case parse_receipt fromiso result of
                Inl e \<Rightarrow> (s, shown, Raised e)
              | Inr parsed_result \<Rightarrow>
                  (let s = s\<lparr>draft_fields := populate parsed_result (draft_fields s)\<rparr>
                   in (s, current_line_items (line_items s), Nothing)))
         | AddLineItem fv \<Rightarrow> (add_line_item today fv s, shown, Nothing)
         | SubmitReport pdf \<Rightarrow>
             (case submit_report repr_str isspace pdf s of
                (s, sub) \<Rightarrow> (s, shown, Submitted sub)))"

section \<open>Notions used to state the properties\<close>

text \<open>
  The candidate field \<open>k\<close> of an analysis result: the entry of the first document, and
  absent when no document was recognised.
\<close>

definition candidate :: "analyze_result \<Rightarrow> string \<Rightarrow> document_field option" where
  "candidate result k = (case documents result of [] \<Rightarrow> None | doc # _ \<Rightarrow> doc_fields doc k)"

definition has_content :: "document_field option \<Rightarrow> bool" where
  "has_content field = (case field of None \<Rightarrow> False | Some f \<Rightarrow> truthy (content f))"


text \<open>The inputs on which the two raising blocks of \<open>parse_receipt\<close> do not raise.\<close>

definition merchant_address_ok :: "document_field option \<Rightarrow> bool" where
  "merchant_address_ok field =
     (case field of
        None \<Rightarrow> True
      | Some f \<Rightarrow> (case value_address f of PAddress pc \<Rightarrow> True | _ \<Rightarrow> False))"

definition country_region_ok :: "document_field option \<Rightarrow> bool" where
  "country_region_ok field =
     (case field of
        None \<Rightarrow> True
      | Some f \<Rightarrow>
          truthy (value_country_region f) \<and> truthy (value_address f) \<longrightarrow>
            (case (value_country_region f, value_address f) of
               (PStr c, PStr a) \<Rightarrow> True
             | _ \<Rightarrow> False))"

subsection \<open>Worked inputs\<close>

definition text_field :: "string \<Rightarrow> document_field" where
  "text_field c =
     \<lparr>content = PStr c, value_string = PStr c, value_country_region = PNone,
      value_address = PNone\<rparr>"

text \<open>A hotel stay: the end-to-end scenario, with a country/region field added.\<close>

definition stay_example :: analyze_result where
  "stay_example =
     \<lparr>result_content = ''Hotel X Total 250.00'',
      documents =
        [\<lparr>doc_fields =
            [''MerchantName'' \<mapsto> text_field ''Hotel X'',
             ''Total'' \<mapsto> text_field ''250.00'',
             ''CountryRegion'' \<mapsto>
               \<lparr>content = PStr ''US'', value_string = PNone,
                value_country_region = PStr ''US'', value_address = PStr ''12 Main St''\<rparr>,
             ''MerchantAddress'' \<mapsto>
               \<lparr>content = PStr ''12 Main St 10001'', value_string = PNone,
                value_country_region = PNone, value_address = PAddress (PStr ''10001'')\<rparr>,
             ''ArrivalDate'' \<mapsto> text_field ''2024-05-01'',
             ''DepartureDate'' \<mapsto> text_field ''2024-05-03'',
             ''TransactionDate'' \<mapsto> text_field ''2024-05-02'']\<rparr>]\<rparr>"

definition stay_record :: parsed_data where
  "stay_record =
     \<lparr>merchant_name = PStr ''Hotel X'', estimated_amount = PStr ''250.00'',
      zip_code = PStr ''10001'', check_in = PDate (Date 2024 5 1),
      check_out = PDate (Date 2024 5 3), logding_location = PStr ''US12 Main St'',
      receipt_file_content = ''Hotel X Total 250.00''\<rparr>"

text \<open>An arrival date printed the American way, beside two ISO dates.\<close>

definition unparsed_arrival_example :: analyze_result where
  "unparsed_arrival_example =
     \<lparr>result_content = ''Arrival 05/01/2024'',
      documents =
        [\<lparr>doc_fields =
            [''ArrivalDate'' \<mapsto> text_field ''05/01/2024'',
             ''DepartureDate'' \<mapsto> text_field ''2024-05-03'',
             ''TransactionDate'' \<mapsto> text_field ''2024-05-02'']\<rparr>]\<rparr>"

text \<open>No arrival date, a departure date and a transaction date.\<close>

definition no_arrival_example :: analyze_result where
  "no_arrival_example =
     \<lparr>result_content = ''Departure 2024-05-03'',
      documents =
        [\<lparr>doc_fields =
            [''DepartureDate'' \<mapsto> text_field ''2024-05-03'',
             ''TransactionDate'' \<mapsto> text_field ''2024-05-02'']\<rparr>]\<rparr>"

definition no_arrival_record :: parsed_data where
  "no_arrival_record =
     \<lparr>merchant_name = PStr [], estimated_amount = PFloat0, zip_code = PStr [],
      check_in = PDate (Date 2024 5 2), check_out = PDate (Date 2024 5 2),
      logding_location = PStr [], receipt_file_content = ''Departure 2024-05-03''\<rparr>"

text \<open>An arrival date with empty content and no transaction date.\<close>

definition empty_arrival_example :: analyze_result where
  "empty_arrival_example =
     \<lparr>result_content = ''Departure 2024-05-03'',
      documents =
        [\<lparr>doc_fields =
            [''ArrivalDate'' \<mapsto> text_field [],
             ''DepartureDate'' \<mapsto> text_field ''2024-05-03'']\<rparr>]\<rparr>"

text \<open>A merchant address that was recognised as text only: it has no address value.\<close>

definition no_address_value_example :: analyze_result where
  "no_address_value_example =
     \<lparr>result_content = ''Hotel X 12 Main St'',
      documents =
        [\<lparr>doc_fields =
            [''MerchantName'' \<mapsto> text_field ''Hotel X'',
             ''MerchantAddress'' \<mapsto> text_field ''12 Main St'']\<rparr>]\<rparr>"

subsection \<open>Line items, consecutive commits and a plain \<open>repr\<close>\<close>

text \<open>
  The keys of a committed line item, in the order of the dictionary literal; \<open>commits\<close>
  presses "Add This Line Item" once per entry of the list, with the date of the press
  and the form values. \<open>repr_plain\<close> is \<open>repr\<close> on the texts that need no escaping
  (no quote, backslash or control character); it serves the worked examples.
\<close>

definition item_keys :: "string list" where
  "item_keys =
     [''expense_name'', ''expense_type'', ''cost_center'', ''merchant_name'',
      ''lodging_location'', ''check_in'', ''check_out'', ''zip_code'', ''estimated_amount'',
      ''receipt_file'']"

definition is_line_item :: "line_item \<Rightarrow> bool" where
  "is_line_item item = (map fst item = item_keys)"

fun commits :: "(date \<times> form_values) list \<Rightarrow> session_state \<Rightarrow> session_state" where
  "commits [] s = s"
| "commits ((today, fv) # cs) s = commits cs (add_line_item today fv s)"

definition repr_plain :: "string \<Rightarrow> string" where
  "repr_plain s = [CHR 0x27] @ s @ [CHR 0x27]"

definition stay_form :: form_values where
  "stay_form =
     \<lparr>form_expense_name = ''Trip 1'', form_expense_type = ''Hotel/Lodging'',
      form_cost_center = ''CC7'', form_merchant_name = ''Hotel X'',
      form_lodging_location = ''US12 Main St'', form_check_in = ''2024-05-01'',
      form_check_out = ''2024-05-03'', form_zip_code = ''10001'',
      form_estimated_amount = ''250.00''\<rparr>"

definition meal_form :: form_values where
  "meal_form =
     \<lparr>form_expense_name = ''Dinner'', form_expense_type = ''Meals'',
      form_cost_center = ''CC7'', form_merchant_name = ''Cafe Y'',
      form_lodging_location = [], form_check_in = ''2024-05-04'',
      form_check_out = ''2024-05-04'', form_zip_code = [],
      form_estimated_amount = ''31.50''\<rparr>"

definition stay_session :: session_state where
  "stay_session =
     \<lparr>line_items = [],
      draft_fields = populate stay_record (empty_draft (Date 2024 5 4))\<rparr>"

definition stay_committed :: session_state where
  "stay_committed = add_line_item (Date 2024 5 4) stay_form stay_session"

lemmas parse_receipt_blocks_defs =
  parse_receipt_def set_merchant_name_def set_estimated_amount_def set_lodging_location_def
  set_zip_code_def set_dates_def field_date_def to_date_def default_parsed_data_def

lemmas fromisoformat_date_defs =
  fromisoformat_date_def digit_val_def days_in_month_def is_leap_def

section \<open>Properties of \<open>to_date\<close>\<close>

lemma truthy_to_date: "truthy (to_date fromiso v) = truthy v"
  by (cases v) (auto simp: to_date_def split: option.splits)

lemma truthy_field_date: "truthy (field_date fromiso field) = has_content field"
  by (simp add: field_date_def has_content_def truthy_to_date split: option.splits)

lemma to_date_result:
  "to_date fromiso v = PNone \<or> (\<exists>d. to_date fromiso v = PDate d) \<or>
   (to_date fromiso v = v \<and> truthy v \<and> fromiso v = None)"
  by (cases v) (auto simp: to_date_def split: option.splits)

section \<open>Properties of the blocks of \<open>parse_receipt\<close>\<close>

lemma set_merchant_name_frame:
  "check_in (set_merchant_name f pd) = check_in pd"
  "check_out (set_merchant_name f pd) = check_out pd"
  "logding_location (set_merchant_name f pd) = logding_location pd"
  by (simp_all add: set_merchant_name_def split: option.splits)

lemma set_estimated_amount_frame:
  "check_in (set_estimated_amount f pd) = check_in pd"
  "check_out (set_estimated_amount f pd) = check_out pd"
  "logding_location (set_estimated_amount f pd) = logding_location pd"
  by (simp_all add: set_estimated_amount_def split: option.splits)

lemma set_lodging_location_sel:
  assumes "set_lodging_location f pd = Inr pd'"
  shows "check_in pd' = check_in pd" "check_out pd' = check_out pd"
  using assms by (auto simp: set_lodging_location_def split: option.splits if_splits sum.splits)

lemma set_zip_code_sel:
  assumes "set_zip_code f pd = Inr pd'"
  shows "check_in pd' = check_in pd" "check_out pd' = check_out pd"
    "logding_location pd' = logding_location pd"
  using assms by (auto simp: set_zip_code_def split: option.splits if_splits sum.splits)


lemma set_dates_decision:
  "check_in pd = PNone \<Longrightarrow> check_out pd = PNone \<Longrightarrow>
   (check_in (set_dates fromiso a d t pd), check_out (set_dates fromiso a d t pd)) =
     (if has_content a \<and> has_content d then (field_date fromiso a, field_date fromiso d)
      else if has_content t then (field_date fromiso t, field_date fromiso t)
      else (PNone, PNone))"
  by (simp add: set_dates_def Let_def truthy_field_date)


lemma set_zip_code_returns:
  "(\<exists>pd'. set_zip_code field pd = Inr pd') = merchant_address_ok field"
  by (cases field; cases "value_address (the field)")
     (auto simp: set_zip_code_def merchant_address_ok_def)

lemma set_lodging_location_returns:
  "(\<exists>pd'. set_lodging_location field pd = Inr pd') = country_region_ok field"
  by (cases field; cases "value_country_region (the field)"; cases "value_address (the field)")
     (auto simp: set_lodging_location_def country_region_ok_def)

section \<open>Properties of \<open>parse_receipt\<close>\<close>

lemma parse_receipt_no_documents:
  "documents result = [] \<Longrightarrow>
   parse_receipt fromiso result =
     Inr (default_parsed_data\<lparr>receipt_file_content := result_content result\<rparr>)"
  by (simp add: parse_receipt_def)

lemma parse_receipt_blocks:
  assumes "parse_receipt fromiso result = Inr r" and "documents result = doc # ds"
  obtains pd1 pd2 where
    "set_lodging_location (doc_fields doc ''CountryRegion'')
       (set_estimated_amount (doc_fields doc ''Total'')
         (set_merchant_name (doc_fields doc ''MerchantName'')
           (default_parsed_data\<lparr>receipt_file_content := result_content result\<rparr>))) = Inr pd1"
    "set_zip_code (doc_fields doc ''MerchantAddress'') pd1 = Inr pd2"
    "r = set_dates fromiso (doc_fields doc ''ArrivalDate'') (doc_fields doc ''DepartureDate'')
           (doc_fields doc ''TransactionDate'') pd2"
  using assms by (auto simp: parse_receipt_def Let_def split: sum.splits)

text \<open>
  \<open>parse_receipt\<close> returns a record exactly when neither the concatenation of the
  lodging location nor the access to the postal code raises.
\<close>

lemma parse_receipt_returns_iff:
  "(\<exists>r. parse_receipt fromiso result = Inr r) =
     (country_region_ok (candidate result ''CountryRegion'') \<and>
      merchant_address_ok (candidate result ''MerchantAddress''))"
proof (cases "documents result")
  case Nil
  then show ?thesis
    by (simp add: parse_receipt_no_documents candidate_def country_region_ok_def
        merchant_address_ok_def)
next
  case (Cons doc ds)
  let ?pd = "set_estimated_amount (doc_fields doc ''Total'')
         (set_merchant_name (doc_fields doc ''MerchantName'')
           (default_parsed_data\<lparr>receipt_file_content := result_content result\<rparr>))"
  show ?thesis
  proof (cases "set_lodging_location (doc_fields doc ''CountryRegion'') ?pd")
    case (Inl e)
    then have "\<not> country_region_ok (doc_fields doc ''CountryRegion'')"
      using set_lodging_location_returns [of "doc_fields doc ''CountryRegion''" ?pd] by auto
    with Inl Cons show ?thesis
      by (simp add: parse_receipt_def Let_def candidate_def)
  next
    case (Inr pd1)
    then have "country_region_ok (doc_fields doc ''CountryRegion'')"
      using set_lodging_location_returns [of "doc_fields doc ''CountryRegion''" ?pd] by auto
    with Inr Cons show ?thesis
      using set_zip_code_returns [of "doc_fields doc ''MerchantAddress''" pd1]
      by (auto simp: parse_receipt_def Let_def candidate_def split: sum.splits)
  qed
qed

lemma parse_receipt_dates:
  assumes "parse_receipt fromiso result = Inr r"
  shows "(check_in r, check_out r) =
     (if has_content (candidate result ''ArrivalDate'') \<and>
         has_content (candidate result ''DepartureDate'')
      then (field_date fromiso (candidate result ''ArrivalDate''),
            field_date fromiso (candidate result ''DepartureDate''))
      else if has_content (candidate result ''TransactionDate'')
      then (field_date fromiso (candidate result ''TransactionDate''),
            field_date fromiso (candidate result ''TransactionDate''))
      else (PNone, PNone))"
proof (cases "documents result")
  case Nil
  with assms show ?thesis
    by (auto simp: parse_receipt_no_documents candidate_def has_content_def
        default_parsed_data_def)
next
  case (Cons doc ds)
  from assms Cons obtain pd1 pd2 where
    b: "set_lodging_location (doc_fields doc ''CountryRegion'')
       (set_estimated_amount (doc_fields doc ''Total'')
         (set_merchant_name (doc_fields doc ''MerchantName'')
           (default_parsed_data\<lparr>receipt_file_content := result_content result\<rparr>))) = Inr pd1"
    "set_zip_code (doc_fields doc ''MerchantAddress'') pd1 = Inr pd2"
    "r = set_dates fromiso (doc_fields doc ''ArrivalDate'') (doc_fields doc ''DepartureDate'')
           (doc_fields doc ''TransactionDate'') pd2"
    by (rule parse_receipt_blocks)
  have "check_in pd1 = PNone \<and> check_out pd1 = PNone"
    using set_lodging_location_sel [OF b(1)]
    by (simp add: set_estimated_amount_frame set_merchant_name_frame default_parsed_data_def)
  then have "check_in pd2 = PNone" "check_out pd2 = PNone"
    using set_zip_code_sel [OF b(2)] by simp_all
  then show ?thesis
    using b(3) Cons by (simp add: set_dates_decision candidate_def)
qed

lemma stay_example_parsed: "parse_receipt fromiso_calendar stay_example = Inr stay_record"
  by (simp add: stay_example_def stay_record_def text_field_def parse_receipt_blocks_defs
      fromisoformat_date_defs)

section \<open>The date decision of \<open>parse_receipt\<close>\<close>

text \<open>
  Claim C1, as the code has it. Whenever \<open>parse_receipt\<close> returns a record: if the
  arrival and the departure field are both present with non-empty content, \<open>check_in\<close>
  is the coerced arrival value and \<open>check_out\<close> the coerced departure value, whatever
  the transaction date; otherwise, if the transaction field is present with non-empty
  content, both are its coerced value; otherwise both are absent. The coerced value of
  a field is \<open>to_date\<close> of its content: a date, or the raw content when it does not
  parse. So an arrival or departure that is absent or empty gives way to the
  transaction date, and one that is merely unparseable does not.
\<close>

theorem date_decision:
  assumes "parse_receipt fromiso result = Inr r"
  shows "(check_in r, check_out r) =
     (if has_content (candidate result ''ArrivalDate'') \<and>
         has_content (candidate result ''DepartureDate'')
      then (field_date fromiso (candidate result ''ArrivalDate''),
            field_date fromiso (candidate result ''DepartureDate''))
      else if has_content (candidate result ''TransactionDate'')
      then (field_date fromiso (candidate result ''TransactionDate''),
            field_date fromiso (candidate result ''TransactionDate''))
      else (PNone, PNone))"
  using assms by (rule parse_receipt_dates)

text \<open>
  The hotel stay: both dates parse, and the transaction date is not used. Without an
  arrival date, both dates are the transaction date.
\<close>

theorem date_decision_witness:
  "parse_receipt fromiso_calendar stay_example = Inr stay_record \<and>
   has_content (candidate stay_example ''ArrivalDate'') \<and>
   has_content (candidate stay_example ''DepartureDate'') \<and>
   check_in stay_record = PDate (Date 2024 5 1) \<and>
   check_out stay_record = PDate (Date 2024 5 3) \<and>
   parse_receipt fromiso_calendar no_arrival_example = Inr no_arrival_record \<and>
   \<not> has_content (candidate no_arrival_example ''ArrivalDate'') \<and>
   has_content (candidate no_arrival_example ''TransactionDate'') \<and>
   field_date fromiso_calendar (candidate no_arrival_example ''TransactionDate'') =
     PDate (Date 2024 5 2) \<and>
   check_in no_arrival_record = PDate (Date 2024 5 2) \<and>
   check_out no_arrival_record = PDate (Date 2024 5 2)"
proof -
  have h: "parse_receipt fromiso_calendar no_arrival_example = Inr no_arrival_record"
    by (simp add: no_arrival_example_def no_arrival_record_def text_field_def
        parse_receipt_blocks_defs fromisoformat_date_defs Let_def)
  have a: "has_content (candidate stay_example ''ArrivalDate'') \<and>
      has_content (candidate stay_example ''DepartureDate'')"
    by (simp add: stay_example_def candidate_def has_content_def text_field_def)
  have b: "\<not> has_content (candidate no_arrival_example ''ArrivalDate'') \<and>
      has_content (candidate no_arrival_example ''TransactionDate'')"
    by (simp add: no_arrival_example_def candidate_def has_content_def text_field_def)
  have c: "field_date fromiso_calendar (candidate no_arrival_example ''TransactionDate'') =
      PDate (Date 2024 5 2)"
    by (simp add: no_arrival_example_def candidate_def text_field_def field_date_def
        to_date_def fromisoformat_date_defs)
  from date_decision [OF stay_example_parsed] a
  have d: "check_in stay_record = PDate (Date 2024 5 1) \<and>
      check_out stay_record = PDate (Date 2024 5 3)"
    by (simp add: stay_record_def)
  from date_decision [OF h] b c
  have e: "check_in no_arrival_record = PDate (Date 2024 5 2) \<and>
      check_out no_arrival_record = PDate (Date 2024 5 2)"
    by simp
  from stay_example_parsed h a b c d e show ?thesis by blast
qed

text \<open>
  Claim C1 as stated fails: the arrival date \<open>05/01/2024\<close> is not ISO-8601, the
  transaction date \<open>2024-05-02\<close> is valid, and yet \<open>check_in\<close> is the raw arrival text
  and \<open>check_out\<close> the departure date, not the transaction date.
\<close>

theorem date_decision_counterexample:
  "parse_receipt fromiso_calendar unparsed_arrival_example =
     Inr \<lparr>merchant_name = PStr [], estimated_amount = PFloat0, zip_code = PStr [],
          check_in = PStr ''05/01/2024'', check_out = PDate (Date 2024 5 3),
          logding_location = PStr [], receipt_file_content = ''Arrival 05/01/2024''\<rparr> \<and>
   fromiso_calendar (PStr ''05/01/2024'') = None \<and>
   to_date fromiso_calendar (PStr ''2024-05-02'') = PDate (Date 2024 5 2)"
  by (simp add: unparsed_arrival_example_def text_field_def parse_receipt_blocks_defs
      fromisoformat_date_defs)

section \<open>A merchant address without an address value\<close>

text \<open>
  Claim C2 says that normalisation never fails, also for a merchant-address field
  without an address value. On that input line 101 reads \<open>postal_code\<close> of \<open>None\<close>:
  \<open>parse_receipt\<close> raises \<open>AttributeError\<close>, whatever the date parser does.
\<close>

theorem merchant_address_without_value_raises:
  "parse_receipt fromiso no_address_value_example = Inl AttributeError"
  by (simp add: no_address_value_example_def text_field_def parse_receipt_blocks_defs)

section \<open>The lodging location\<close>



section \<open>The tolerant date coercion\<close>




text \<open>
  Claim C9. A missing or empty (falsy) raw value is coerced to \<open>None\<close>; so is the empty
  text in particular. The result of the coercion is \<open>None\<close>, a date, or the raw value,
  and the raw value only when it is non-empty and fails to parse. No record returned by
  \<open>parse_receipt\<close> has the empty text as \<open>check_in\<close> or \<open>check_out\<close>.
\<close>

theorem falsy_date_is_absent:
  "(\<not> truthy v \<longrightarrow> to_date fromiso v = PNone) \<and>
   to_date fromiso (PStr []) = PNone \<and>
   (to_date fromiso v = PNone \<or> (\<exists>d. to_date fromiso v = PDate d) \<or>
    (to_date fromiso v = v \<and> truthy v \<and> fromiso v = None)) \<and>
   (parse_receipt fromiso result = Inr r \<longrightarrow> check_in r \<noteq> PStr [] \<and> check_out r \<noteq> PStr [])"
proof -
  have "check_in r \<noteq> PStr [] \<and> check_out r \<noteq> PStr []"
    if h: "parse_receipt fromiso result = Inr r"
  proof -
    let ?a = "candidate result ''ArrivalDate''"
    let ?d = "candidate result ''DepartureDate''"
    let ?t = "candidate result ''TransactionDate''"
    have "check_in r =
        (if has_content ?a \<and> has_content ?d then field_date fromiso ?a
         else if has_content ?t then field_date fromiso ?t else PNone)"
      and "check_out r =
        (if has_content ?a \<and> has_content ?d then field_date fromiso ?d
         else if has_content ?t then field_date fromiso ?t else PNone)"
      using parse_receipt_dates [OF h] by (auto split: if_splits)
    then have "truthy (check_in r) \<or> check_in r = PNone"
      and "truthy (check_out r) \<or> check_out r = PNone"
      by (simp_all add: truthy_field_date)
    then show ?thesis by auto
  qed
  then show ?thesis
    using to_date_result [of fromiso v] by (simp add: to_date_def)
qed

text \<open>An arrival field with empty content: the dates of the record are absent.\<close>

theorem falsy_date_is_absent_witness:
  "\<not> truthy (PStr []) \<and> to_date fromiso_calendar (PStr []) = PNone \<and>
   parse_receipt fromiso_calendar empty_arrival_example =
     Inr \<lparr>merchant_name = PStr [], estimated_amount = PFloat0, zip_code = PStr [],
          check_in = PNone, check_out = PNone, logding_location = PStr [],
          receipt_file_content = ''Departure 2024-05-03''\<rparr> \<and>
   PNone \<noteq> PStr []"
  using falsy_date_is_absent [of "PStr []" fromiso_calendar empty_arrival_example
      "\<lparr>merchant_name = PStr [], estimated_amount = PFloat0, zip_code = PStr [],
          check_in = PNone, check_out = PNone, logding_location = PStr [],
          receipt_file_content = ''Departure 2024-05-03''\<rparr>"]
  by (simp add: empty_arrival_example_def text_field_def parse_receipt_blocks_defs
      fromisoformat_date_defs)

section \<open>Properties of the serialised line items\<close>

lemma sublist_append_left: "sublist x ys \<Longrightarrow> sublist x (zs @ ys)"
  by (simp add: sublist_append)

lemma sublist_append_right: "sublist x ys \<Longrightarrow> sublist x (ys @ zs)"
  by (simp add: sublist_append)

lemma sublist_join: "x \<in> set xs \<Longrightarrow> sublist x (join sep xs)"
proof (induction sep xs rule: join.induct)
  case (1 sep)
  then show ?case by simp
next
  case (2 sep y)
  then show ?case by simp
next
  case (3 sep y z zs)
  show ?case
  proof (cases "x = y")
    case True
    then show ?thesis by simp
  next
    case False
    with 3 have "sublist x (join sep (z # zs))" by simp
    then have "sublist x (sep @ join sep (z # zs))" by (rule sublist_append_left)
    then have "sublist x (y @ sep @ join sep (z # zs))" by (rule sublist_append_left)
    then show ?thesis by simp
  qed
qed

lemma sublist_str_of_items:
  assumes "item \<in> set items" and "e \<in> set item"
  shows "sublist (repr_entry repr_str e) (str_of_items repr_str items)"
proof -
  have "sublist (repr_entry repr_str e) (join '', '' (map (repr_entry repr_str) item))"
    using assms(2) by (intro sublist_join) simp
  then have "sublist (repr_entry repr_str e) (repr_dict repr_str item)"
    unfolding repr_dict_def by (intro sublist_append_left sublist_append_right)
  moreover have "sublist (repr_dict repr_str item) (join '', '' (map (repr_dict repr_str) items))"
    using assms(1) by (intro sublist_join) simp
  then have "sublist (repr_dict repr_str item) (str_of_items repr_str items)"
    unfolding str_of_items_def by (intro sublist_append_left sublist_append_right)
  ultimately show ?thesis by (rule sublist_order.order_trans)
qed

section \<open>Properties of the compliance request\<close>

text \<open>
  Claim C3, as the code has it. The request consists of exactly four messages, all with
  the role \<open>system\<close>, in this order: the policy preamble followed by the complete
  policy text; the role instruction to check for policy violations; the instruction to
  also give suggestions, followed in the same message by the serialised list of all
  line items, every entry of every item included; and the response-format instruction,
  which names the keys \<open>line_item_no\<close>, \<open>policy_violations\<close> and \<open>suggestion\<close>.
\<close>

theorem compliance_request_segments:
  "length (compliance_messages repr_str pdf_text items) = 4 \<and>
   map role (compliance_messages repr_str pdf_text items) =
     [''system'', ''system'', ''system'', ''system''] \<and>
   map message_content (compliance_messages repr_str pdf_text items) =
     [''Given to you is the travel manual or all the policies related to submitting expense: ''
        @ pdf_text,
      ''You need to act as Policy violation checker, we will provide you with the line items of the expense, based on that you need to check and get back to with possible policy violations'',
      ''Along with policy violation you should get back to user with suggestions. Here are the line items: ''
        @ str_of_items repr_str items,
      ''Always respond back in json format with keys line_item_no, policy_violations (value should be None if no policy violation is there), suggestion (if any policy violations are there)''] \<and>
   sublist ''line_item_no'' (message_content (compliance_messages repr_str pdf_text items ! 3)) \<and>
   sublist ''policy_violations''
     (message_content (compliance_messages repr_str pdf_text items ! 3)) \<and>
   sublist ''suggestion'' (message_content (compliance_messages repr_str pdf_text items ! 3)) \<and>
   (\<forall>item \<in> set items. \<forall>e \<in> set item.
      sublist (repr_entry repr_str e)
        (message_content (compliance_messages repr_str pdf_text items ! 2)))"
proof -
  let ?fmt = "''Always respond back in json format with keys line_item_no, policy_violations (value should be None if no policy violation is there), suggestion (if any policy violations are there)''"
  have k1: "sublist ''line_item_no'' ?fmt" by code_simp
  have k2: "sublist ''policy_violations'' ?fmt" by code_simp
  have k3: "sublist ''suggestion'' ?fmt" by code_simp
  have m2: "message_content (compliance_messages repr_str pdf_text items ! 2) =
      ''Along with policy violation you should get back to user with suggestions. Here are the line items: ''
        @ str_of_items repr_str items"
    by (simp add: compliance_messages_def)
  have "sublist (repr_entry repr_str e)
      (message_content (compliance_messages repr_str pdf_text items ! 2))"
    if "item \<in> set items" "e \<in> set item" for item e
    unfolding m2 using sublist_str_of_items [OF that, of repr_str]
    by (rule sublist_append_left)
  then show ?thesis
    using k1 k2 k3 by (simp add: compliance_messages_def)
qed

text \<open>One committed stay: the third message holds its raw receipt content.\<close>

theorem compliance_request_segments_witness:
  "line_items (commits [(Date 2024 5 4, stay_form)] stay_session) = [new_item stay_form (draft_fields stay_session)] \<and>
   (''receipt_file'', ''Hotel X Total 250.00'') \<in> set (new_item stay_form (draft_fields stay_session)) \<and>
   sublist (repr_entry repr_plain (''receipt_file'', ''Hotel X Total 250.00''))
     (message_content
        (compliance_messages repr_plain ''Policy''
           (line_items (commits [(Date 2024 5 4, stay_form)] stay_session)) ! 2))"
proof -
  have a: "line_items (commits [(Date 2024 5 4, stay_form)] stay_session) =
      [new_item stay_form (draft_fields stay_session)]"
    by (simp add: add_line_item_def stay_session_def)
  have b: "(''receipt_file'', ''Hotel X Total 250.00'') \<in>
      set (new_item stay_form (draft_fields stay_session))"
    by (simp add: new_item_def stay_session_def populate_def stay_record_def)
  from compliance_request_segments
    [of repr_plain "''Policy''" "line_items (commits [(Date 2024 5 4, stay_form)] stay_session)"]
  show ?thesis using a b by simp
qed

text \<open>
  Claim C3 as stated fails: the request has four messages, not five; the serialised
  list shares the third message with the suggestion instruction.
\<close>

theorem compliance_request_segments_counterexample:
  "length (compliance_messages repr_plain ''Policy'' []) = 4 \<and>
   length (compliance_messages repr_plain ''Policy'' []) \<noteq> 5 \<and>
   message_content (compliance_messages repr_plain ''Policy'' [] ! 2) =
     ''Along with policy violation you should get back to user with suggestions. Here are the line items: []''"
  by (simp add: compliance_messages_def str_of_items_def)

section \<open>Committing a line item\<close>

lemma new_item_cong:
  "draft_receipt_file d = draft_receipt_file d' \<Longrightarrow> new_item fv d = new_item fv d'"
  by (simp add: new_item_def)

lemma commits_from_empty_draft:
  "draft_receipt_file (draft_fields s) = [] \<Longrightarrow>
   line_items (commits cs s) = line_items s @ map (\<lambda>(t, f). new_item f (empty_draft t)) cs"
proof (induction cs arbitrary: s)
  case Nil
  then show ?case by simp
next
  case (Cons c cs)
  obtain today fv where c: "c = (today, fv)" by (cases c)
  have "draft_receipt_file (draft_fields (add_line_item today fv s)) = []"
    by (simp add: add_line_item_def empty_draft_def)
  from Cons.IH [OF this]
  have "line_items (commits cs (add_line_item today fv s)) =
      line_items s @ new_item fv (draft_fields s) # map (\<lambda>(t, f). new_item f (empty_draft t)) cs"
    by (simp add: add_line_item_def)
  moreover have "new_item fv (draft_fields s) = new_item fv (empty_draft today)"
    using Cons.prems by (intro new_item_cong) (simp add: empty_draft_def)
  ultimately show ?case by (simp add: c)
qed

lemma commits_append:
  "line_items (commits ((today, fv) # cs) s) =
     line_items s @ new_item fv (draft_fields s) #
       map (\<lambda>(t, f). new_item f (empty_draft t)) cs"
proof -
  have "draft_receipt_file (draft_fields (add_line_item today fv s)) = []"
    by (simp add: add_line_item_def empty_draft_def)
  from commits_from_empty_draft [OF this, of cs] show ?thesis
    by (simp add: add_line_item_def)
qed

lemma length_commits:
  "length (line_items (commits cs s)) = length (line_items s) + length cs"
  by (induction cs arbitrary: s) (auto simp: add_line_item_def)

lemma commits_draft:
  "cs \<noteq> [] \<Longrightarrow> draft_fields (commits cs s) = empty_draft (fst (last cs))"
proof (induction cs arbitrary: s)
  case Nil
  then show ?case by simp
next
  case (Cons c cs)
  obtain today fv where c: "c = (today, fv)" by (cases c)
  show ?case
    by (cases "cs = []") (simp_all add: c Cons.IH add_line_item_def Let_def)
qed

text \<open>
  Claim C4. "Add This Line Item" appends exactly one line item, built from the form
  values (the two dates through \<open>str\<close>) and the raw receipt content of the draft, and
  leaves the draft at its defaults: empty texts, expense type \<open>Hotel/Lodging\<close>, today
  for both dates, amount \<open>0.0\<close>, and empty raw content. After any number of consecutive
  commits the store has grown by one item per commit, the first item carries the raw
  content the draft had, every later item carries none, and the draft is at the
  defaults of the day of the last commit.
\<close>

theorem commit_appends_and_resets:
  "line_items (add_line_item today fv s) = line_items s @ [new_item fv (draft_fields s)] \<and>
   new_item fv (draft_fields s) =
     [(''expense_name'', form_expense_name fv), (''expense_type'', form_expense_type fv),
      (''cost_center'', form_cost_center fv), (''merchant_name'', form_merchant_name fv),
      (''lodging_location'', form_lodging_location fv), (''check_in'', form_check_in fv),
      (''check_out'', form_check_out fv), (''zip_code'', form_zip_code fv),
      (''estimated_amount'', form_estimated_amount fv),
      (''receipt_file'', draft_receipt_file (draft_fields s))] \<and>
   draft_fields (add_line_item today fv s) = empty_draft today \<and>
   empty_draft today =
     \<lparr>draft_expense_name = PStr [], draft_expense_type = PStr ''Hotel/Lodging'',
      draft_cost_center = PStr [], draft_merchant_name = PStr [],
      draft_lodging_location = PStr [], draft_check_in = PDate today,
      draft_check_out = PDate today, draft_zip_code = PStr [],
      draft_estimated_amount = PFloat0, draft_receipt_file = []\<rparr> \<and>
   line_items (commits ((today, fv) # cs) s) =
     line_items s @ new_item fv (draft_fields s) #
       map (\<lambda>(t, f). new_item f (empty_draft t)) cs \<and>
   length (line_items (commits cs s)) = length (line_items s) + length cs \<and>
   draft_fields (commits ((today, fv) # cs) s) = empty_draft (fst (last ((today, fv) # cs))) \<and>
   map_of (new_item f (empty_draft t)) ''receipt_file'' = Some []"
proof -
  have "length (line_items (commits cs s)) = length (line_items s) + length cs"
    by (rule length_commits)
  moreover have "draft_fields (commits ((today, fv) # cs) s) =
      empty_draft (fst (last ((today, fv) # cs)))"
    by (rule commits_draft) simp
  moreover have "line_items (commits ((today, fv) # cs) s) =
     line_items s @ new_item fv (draft_fields s) #
       map (\<lambda>(t, f). new_item f (empty_draft t)) cs"
    by (rule commits_append)
  ultimately show ?thesis
    by (simp add: add_line_item_def Let_def new_item_def str_of_text_def empty_draft_def)
qed

text \<open>Three commits after the hotel receipt was parsed: only the first has raw content.\<close>

theorem commit_appends_and_resets_witness:
  "line_items
     (commits [(Date 2024 5 4, stay_form), (Date 2024 5 4, meal_form), (Date 2024 5 5, meal_form)]
        stay_session) =
     [new_item stay_form (draft_fields stay_session),
      new_item meal_form (empty_draft (Date 2024 5 4)),
      new_item meal_form (empty_draft (Date 2024 5 5))] \<and>
   draft_fields
     (commits [(Date 2024 5 4, stay_form), (Date 2024 5 4, meal_form), (Date 2024 5 5, meal_form)]
        stay_session) = empty_draft (Date 2024 5 5) \<and>
   map_of (new_item stay_form (draft_fields stay_session)) ''receipt_file'' =
     Some ''Hotel X Total 250.00'' \<and>
   map_of (new_item meal_form (empty_draft (Date 2024 5 4))) ''receipt_file'' = Some []"
proof -
  let ?cs = "[(Date 2024 5 4, stay_form), (Date 2024 5 4, meal_form), (Date 2024 5 5, meal_form)]"
  note t = commit_appends_and_resets
    [of "Date 2024 5 4" stay_form stay_session
        "[(Date 2024 5 4, meal_form), (Date 2024 5 5, meal_form)]" meal_form "Date 2024 5 4"]
  have s0: "line_items stay_session = []" by (simp add: stay_session_def)
  from t have a: "line_items (commits ?cs stay_session) =
     [new_item stay_form (draft_fields stay_session),
      new_item meal_form (empty_draft (Date 2024 5 4)),
      new_item meal_form (empty_draft (Date 2024 5 5))]"
    by (simp add: s0 del: commits.simps)
  from t have b: "draft_fields (commits ?cs stay_session) = empty_draft (Date 2024 5 5)"
    by (simp del: commits.simps)
  have c: "map_of (new_item stay_form (draft_fields stay_session)) ''receipt_file'' =
     Some ''Hotel X Total 250.00''"
    by (simp add: new_item_def stay_session_def populate_def stay_record_def)
  from t have d: "map_of (new_item meal_form (empty_draft (Date 2024 5 4))) ''receipt_file'' = Some []"
    by blast
  from a b c d show ?thesis by blast
qed

section \<open>What is displayed and what is sent\<close>

lemma is_line_item_new_item: "is_line_item (new_item fv d)"
  by (simp add: is_line_item_def new_item_def item_keys_def)

lemma is_line_item_receipt_file:
  assumes "is_line_item item"
  shows "\<exists>raw. (''receipt_file'', raw) \<in> set item \<and> map_of item ''receipt_file'' = Some raw"
proof -
  from assms obtain v1 v2 v3 v4 v5 v6 v7 v8 v9 raw where
    "item = [(''expense_name'', v1), (''expense_type'', v2), (''cost_center'', v3),
       (''merchant_name'', v4), (''lodging_location'', v5), (''check_in'', v6),
       (''check_out'', v7), (''zip_code'', v8), (''estimated_amount'', v9),
       (''receipt_file'', raw)]"
    by (auto simp: is_line_item_def item_keys_def map_eq_Cons_conv)
  then show ?thesis by simp
qed

lemma main_keeps_line_items:
  assumes "case st of None \<Rightarrow> True | Some s \<Rightarrow> list_all is_line_item (line_items s)"
  shows "list_all is_line_item
           (line_items (fst (main fromiso repr_str isspace today ev st)))"
proof -
  have "list_all is_line_item (line_items (init_session today st))"
    using assms by (simp add: init_session_def split: option.splits)
  then show ?thesis
    by (cases ev)
       (auto simp: main_def Let_def add_line_item_def submit_report_def is_line_item_new_item
             split: sum.splits)
qed

lemma dict_pop_keys: "k \<notin> fst ` set (dict_pop k d)"
  by (auto simp: dict_pop_def)

lemma map_of_dict_pop: "k' \<noteq> k \<Longrightarrow> map_of (dict_pop k d) k' = map_of d k'"
  by (induction d) (auto simp: dict_pop_def)

lemma stay_committed_items:
  "line_items stay_committed =
     [[(''expense_name'', ''Trip 1''), (''expense_type'', ''Hotel/Lodging''),
       (''cost_center'', ''CC7''), (''merchant_name'', ''Hotel X''),
       (''lodging_location'', ''US12 Main St''), (''check_in'', ''2024-05-01''),
       (''check_out'', ''2024-05-03''), (''zip_code'', ''10001''),
       (''estimated_amount'', ''250.00''), (''receipt_file'', ''Hotel X Total 250.00'')]]"
  by (simp add: stay_committed_def add_line_item_def stay_session_def new_item_def
      stay_form_def populate_def stay_record_def str_of_text_def)

text \<open>
  Claim C5. No displayed line item and no item of the final JSON has the key
  \<open>receipt_file\<close>, whatever the store holds, and the display keeps every other entry.
  The request is built from the store itself: for every item of a store of committed
  line items, the serialised list in the third message contains the entry
  \<open>receipt_file\<close> with its raw content.
\<close>

theorem raw_content_only_in_request:
  "(\<forall>(n, d) \<in> set (current_line_items items). ''receipt_file'' \<notin> fst ` set d) \<and>
   (\<forall>d \<in> set (filtered_line_items items). ''receipt_file'' \<notin> fst ` set d) \<and>
   map snd (current_line_items items) = map display_item items \<and>
   (\<forall>k. k \<noteq> ''receipt_file'' \<longrightarrow> map_of (display_item item) k = map_of item k) \<and>
   final_json (snd (submit_report repr_str isspace pdf s)) =
     filtered_line_items (line_items s) \<and>
   request (snd (submit_report repr_str isspace pdf s)) =
     compliance_messages repr_str (extract_text_from_pdf isspace pdf) (line_items s) \<and>
   (list_all is_line_item (line_items s) \<longrightarrow>
      (\<forall>item \<in> set (line_items s). \<exists>raw.
          map_of item ''receipt_file'' = Some raw \<and>
          sublist (repr_entry repr_str (''receipt_file'', raw))
            (message_content (request (snd (submit_report repr_str isspace pdf s)) ! 2))))"
proof -
  have shown: "map snd (current_line_items items) = map display_item items"
    unfolding current_line_items_def
    by (induction items rule: rev_induct) (simp_all add: enumerate_append_eq)
  have a: "\<forall>(n, d) \<in> set (current_line_items items). ''receipt_file'' \<notin> fst ` set d"
  proof -
    have "\<forall>d \<in> set (map snd (current_line_items items)). ''receipt_file'' \<notin> fst ` set d"
      unfolding shown by (simp add: display_item_def dict_pop_keys)
    then show ?thesis by force
  qed
  have b: "\<forall>d \<in> set (filtered_line_items items). ''receipt_file'' \<notin> fst ` set d"
    by (auto simp: filtered_line_items_def)
  have c: "\<forall>k. k \<noteq> ''receipt_file'' \<longrightarrow> map_of (display_item item) k = map_of item k"
    by (simp add: display_item_def map_of_dict_pop)
  have m2: "message_content (request (snd (submit_report repr_str isspace pdf s)) ! 2) =
      ''Along with policy violation you should get back to user with suggestions. Here are the line items: ''
        @ str_of_items repr_str (line_items s)"
    by (simp add: submit_report_def compliance_messages_def)
  have d: "\<exists>raw. map_of item ''receipt_file'' = Some raw \<and>
          sublist (repr_entry repr_str (''receipt_file'', raw))
            (message_content (request (snd (submit_report repr_str isspace pdf s)) ! 2))"
    if wf: "list_all is_line_item (line_items s)" and mem: "item \<in> set (line_items s)" for item
  proof -
    from wf mem have "is_line_item item" by (simp add: list_all_iff)
    then obtain raw where
      raw: "(''receipt_file'', raw) \<in> set item" "map_of item ''receipt_file'' = Some raw"
      using is_line_item_receipt_file by blast
    have "sublist (repr_entry repr_str (''receipt_file'', raw))
        (message_content (request (snd (submit_report repr_str isspace pdf s)) ! 2))"
      unfolding m2 using sublist_str_of_items [OF mem raw(1), of repr_str]
      by (rule sublist_append_left)
    with raw(2) show ?thesis by blast
  qed
  have e: "final_json (snd (submit_report repr_str isspace pdf s)) =
        filtered_line_items (line_items s)"
    "request (snd (submit_report repr_str isspace pdf s)) =
     compliance_messages repr_str (extract_text_from_pdf isspace pdf) (line_items s)"
    by (simp_all add: submit_report_def)
  from shown a b c d e show ?thesis by blast
qed

text \<open>The stay committed: nine entries are displayed, the tenth is in the request.\<close>

theorem raw_content_only_in_request_witness:
  "list_all is_line_item (line_items stay_committed) \<and>
   current_line_items (line_items stay_committed) =
     [(1, [(''expense_name'', ''Trip 1''), (''expense_type'', ''Hotel/Lodging''),
       (''cost_center'', ''CC7''), (''merchant_name'', ''Hotel X''),
       (''lodging_location'', ''US12 Main St''), (''check_in'', ''2024-05-01''),
       (''check_out'', ''2024-05-03''), (''zip_code'', ''10001''),
       (''estimated_amount'', ''250.00'')])] \<and>
   sublist (repr_entry repr_plain (''receipt_file'', ''Hotel X Total 250.00''))
     (message_content
        (request (snd (submit_report repr_plain ascii_isspace (Inl ''no such file'')
           stay_committed)) ! 2))"
proof -
  have wf: "list_all is_line_item (line_items stay_committed)"
    by (simp add: stay_committed_items is_line_item_def item_keys_def)
  have shown: "current_line_items (line_items stay_committed) =
     [(1, [(''expense_name'', ''Trip 1''), (''expense_type'', ''Hotel/Lodging''),
       (''cost_center'', ''CC7''), (''merchant_name'', ''Hotel X''),
       (''lodging_location'', ''US12 Main St''), (''check_in'', ''2024-05-01''),
       (''check_out'', ''2024-05-03''), (''zip_code'', ''10001''),
       (''estimated_amount'', ''250.00'')])]"
    by (simp add: stay_committed_items current_line_items_def display_item_def dict_pop_def)
  from raw_content_only_in_request
    [of "line_items stay_committed" _ repr_plain ascii_isspace "Inl ''no such file''"
        stay_committed] wf
  have "\<forall>item \<in> set (line_items stay_committed). \<exists>raw.
          map_of item ''receipt_file'' = Some raw \<and>
          sublist (repr_entry repr_plain (''receipt_file'', raw))
            (message_content (request (snd (submit_report repr_plain ascii_isspace
               (Inl ''no such file'') stay_committed)) ! 2))"
    by blast
  then have "sublist (repr_entry repr_plain (''receipt_file'', ''Hotel X Total 250.00''))
     (message_content
        (request (snd (submit_report repr_plain ascii_isspace (Inl ''no such file'')
           stay_committed)) ! 2))"
    by (simp add: stay_committed_items)
  with wf shown show ?thesis by blast
qed

section \<open>Reading the policy document\<close>

lemma read_pages_texts:
  "read_pages (map Inr texts @ rest) acc =
     read_pages rest (acc @ concat (map (\<lambda>t. t @ [CHR 0x0A]) texts))"
  by (induction texts arbitrary: acc) simp_all

text \<open>
  Claim C8. When opening the document raises, or reading a page raises, the reader
  returns the text \<open>Error: \<close> followed by the message of the exception, and the first
  message of the request is the policy preamble followed by that text. When nothing
  raises, the reader returns the texts of the pages, each followed by a newline,
  concatenated, with the surrounding whitespace stripped.
\<close>

theorem read_failure_becomes_policy_text:
  "extract_text_from_pdf isspace (Inl e) = ''Error: '' @ e \<and>
   extract_text_from_pdf isspace (Inr (map Inr texts @ Inl e # rest)) = ''Error: '' @ e \<and>
   extract_text_from_pdf isspace (Inr (map Inr texts)) =
     strip isspace (concat (map (\<lambda>t. t @ [CHR 0x0A]) texts)) \<and>
   message_content (request (snd (submit_report repr_str isspace (Inl e) s)) ! 0) =
     ''Given to you is the travel manual or all the policies related to submitting expense: ''
       @ ''Error: '' @ e \<and>
   message_content
     (request (snd (submit_report repr_str isspace (Inr (map Inr texts @ Inl e # rest)) s)) ! 0) =
     ''Given to you is the travel manual or all the policies related to submitting expense: ''
       @ ''Error: '' @ e"
proof -
  have a: "extract_text_from_pdf isspace (Inl e) = ''Error: '' @ e"
    by (simp add: extract_text_from_pdf_def)
  have b: "extract_text_from_pdf isspace (Inr (map Inr texts @ Inl e # rest)) = ''Error: '' @ e"
    by (simp add: extract_text_from_pdf_def read_pages_texts)
  have c: "extract_text_from_pdf isspace (Inr (map Inr texts)) =
     strip isspace (concat (map (\<lambda>t. t @ [CHR 0x0A]) texts))"
    using read_pages_texts [of texts "[]" "[]"] by (simp add: extract_text_from_pdf_def)
  have d: "message_content (request (snd (submit_report repr_str isspace pdf s)) ! 0) =
     ''Given to you is the travel manual or all the policies related to submitting expense: ''
       @ extract_text_from_pdf isspace pdf" for pdf
    by (simp add: submit_report_def compliance_messages_def)
  show ?thesis
    unfolding d a b using c by simp
qed

section \<open>Submitting leaves the session as it is\<close>

text \<open>
  Claim C10. "Submit Expense Report" returns the session state it was given: the store
  and the draft are unchanged. A second submission with nothing in between produces
  the same run, and sends the same serialised line items whatever the policy reader
  returns.
\<close>

theorem submit_keeps_session_state:
  "fst (submit_report repr_str isspace pdf s) = s \<and>
   fst (main fromiso repr_str isspace today (SubmitReport pdf) (Some s)) = s \<and>
   main fromiso repr_str isspace today' (SubmitReport pdf)
     (Some (fst (main fromiso repr_str isspace today (SubmitReport pdf) (Some s)))) =
     main fromiso repr_str isspace today (SubmitReport pdf) (Some s) \<and>
   message_content
     (request (snd (submit_report repr_str isspace pdf'
        (fst (submit_report repr_str isspace pdf s)))) ! 2) =
     message_content (request (snd (submit_report repr_str isspace pdf s)) ! 2)"
  by (simp add: main_def submit_report_def init_session_def compliance_messages_def)

end
